theory Spec2Isabelle
  imports Complex_Main
begin

section \<open>Python values used by tides.py\<close>

text \<open>
  The exceptions the scraper can raise. A function of the source that can raise returns
  \<open>py_error + 'a\<close> with \<open>Inl\<close> for the exception; a function whose only exception is
  caught by the source itself (\<^verbatim>\<open>except ValueError: return None\<close>) returns an option.
\<close>

datatype py_error = IndexError | KeyError | ValueError | AttributeError | TypeError

text \<open>
  A Python \<^verbatim>\<open>str\<close> is the list of its code points; a \<open>char\<close> holds the code points
  below 256. \<^verbatim>\<open>str.strip()\<close> removes the characters for which \<^verbatim>\<open>str.isspace\<close> holds.
\<close>

definition is_space :: "char \<Rightarrow> bool" where
  "is_space c = ((of_char c :: nat) \<in> {9, 10, 11, 12, 13, 28, 29, 30, 31, 32, 133, 160})"

definition strip :: "string \<Rightarrow> string" where
  "strip s = rev (dropWhile is_space (rev (dropWhile is_space s)))"

text \<open>\<^verbatim>\<open>s.split(c)\<close> for a one-character separator: the pieces between the separators.\<close>

fun split_on :: "char \<Rightarrow> string \<Rightarrow> string list" where
  "split_on c [] = [[]]"
| "split_on c (x # xs) =
     (if x = c then [] # split_on c xs
      else (case split_on c xs of
              p # ps \<Rightarrow> (x # p) # ps
            | [] \<Rightarrow> [[x]]))"

text \<open>\<^verbatim>\<open>hr[-2:]\<close>: the last two characters, or the whole string when it is shorter.\<close>

definition last2 :: "string \<Rightarrow> string" where
  "last2 hr = drop (length hr - 2) hr"

text \<open>
  \<^verbatim>\<open>datetime.time\<close> as \<^verbatim>\<open>strptime(_, "%I:%M%p").time()\<close> builds it: hour and minute
  (second and microsecond are 0, there is no time zone). Times compare as the tuples
  (hour, minute).
\<close>

record time =
  hour :: nat
  minute :: nat

definition time_le :: "time \<Rightarrow> time \<Rightarrow> bool" where
  "time_le a b = (hour a < hour b \<or> (hour a = hour b \<and> minute a \<le> minute b))"

definition minute_of_day :: "time \<Rightarrow> nat" where
  "minute_of_day t = 60 * hour t + minute t"

text \<open>\<^verbatim>\<open>datetime.date\<close>: year 1..9999, a month and a day of that month.\<close>

record date =
  year :: int
  month :: nat
  day :: nat

definition is_leap :: "int \<Rightarrow> bool" where
  "is_leap y = (y mod 4 = 0 \<and> (y mod 100 \<noteq> 0 \<or> y mod 400 = 0))"

definition days_in_month :: "int \<Rightarrow> nat \<Rightarrow> nat" where
  "days_in_month y m =
     (if m = 2 then (if is_leap y then 29 else 28)
      else if m \<in> {4, 6, 9, 11} then 30 else 31)"

definition valid_date :: "date \<Rightarrow> bool" where
  "valid_date d =
     (1 \<le> year d \<and> year d \<le> 9999 \<and> 1 \<le> month d \<and> month d \<le> 12 \<and>
      1 \<le> day d \<and> day d \<le> days_in_month (year d) (month d))"

text \<open>
  \<^verbatim>\<open>date_obj.replace(year=y)\<close>: the date with the year replaced; \<open>None\<close> is the
  ValueError Python raises when the result is not a date.
\<close>

definition replace_year :: "date \<Rightarrow> int \<Rightarrow> date option" where
  "replace_year d y =
     (if valid_date (d\<lparr>year := y\<rparr>) then Some (d\<lparr>year := y\<rparr>) else None)"

text \<open>
  The library functions the scraper calls on strings are parameters of the model:
  \<^item> \<open>py_strptime_time s\<close> is \<^verbatim>\<open>datetime.strptime(s, "%I:%M%p").time()\<close>,
  \<^item> \<open>py_strptime_date s\<close> is \<^verbatim>\<open>datetime.strptime(s, "%a %d %B").date()\<close>,
  \<^item> \<open>py_float s\<close> is \<^verbatim>\<open>float(s)\<close>,
  \<^item> \<open>py_fromisoformat s\<close> is \<^verbatim>\<open>date.fromisoformat(s)\<close>,
  \<^item> \<open>py_int s\<close> is \<^verbatim>\<open>int(s)\<close>,
  each with \<open>None\<close> for the ValueError of a string it does not accept. The type \<open>'f\<close>
  stands for Python's floats.
\<close>

record 'f pylib =
  py_strptime_time :: "string \<Rightarrow> time option"
  py_strptime_date :: "string \<Rightarrow> date option"
  py_float :: "string \<Rightarrow> 'f option"
  py_fromisoformat :: "string \<Rightarrow> date option"
  py_int :: "string \<Rightarrow> int option"

section \<open>Time and date normalizer\<close>

definition fix_hour :: "string \<Rightarrow> string" where
  "fix_hour hr = (if last2 hr = ''00'' then ''12'' else last2 hr)"

text \<open>
  \<^verbatim>\<open>left_part, right_part = ('0' + time_str.strip()).split(':')\<close> raises ValueError
  unless the split gives exactly two parts; \<open>None\<close> is that ValueError.
\<close>

definition force_hour_two_digits :: "string \<Rightarrow> string option" where
  "force_hour_two_digits time_str =
     (case split_on CHR '':'' (CHR ''0'' # strip time_str) of
        [left_part, right_part] \<Rightarrow> Some (fix_hour left_part @ '':'' @ right_part)
      | _ \<Rightarrow> None)"

text \<open>Both ValueErrors (the unpacking and strptime) are caught and give \<^verbatim>\<open>None\<close>.\<close>

definition parse_time_str :: "'f pylib \<Rightarrow> string \<Rightarrow> time option" where
  "parse_time_str L time_str =
     (case force_hour_two_digits time_str of
        None \<Rightarrow> None
      | Some s \<Rightarrow> py_strptime_time L s)"

text \<open>\<^verbatim>\<open>date.today()\<close> is the parameter \<open>today\<close>.\<close>

definition adjust_year :: "date \<Rightarrow> date \<Rightarrow> date option" where
  "adjust_year today date_obj =
     (if month today = 12 \<and> month date_obj = 1
      then replace_year date_obj (year today + 1)
      else replace_year date_obj (year today))"

definition parse_date_str :: "'f pylib \<Rightarrow> date \<Rightarrow> string \<Rightarrow> date option" where
  "parse_date_str L today date_str =
     (case py_strptime_date L date_str of
        None \<Rightarrow> None
      | Some d \<Rightarrow> adjust_year today d)"

section \<open>The parsed page\<close>

text \<open>
  A BeautifulSoup tree as \<^verbatim>\<open>html.parser\<close> builds it: a tag has a name, its \<^verbatim>\<open>class\<close> attribute (a list of class
  names, \<open>None\<close> when the tag has no such attribute), its other attributes (the
  dictionary \<^verbatim>\<open>attrs\<close> as an association list, read with \<open>map_of\<close>) and its children;
  a string of the page is a \<open>NavigableString\<close>.
\<close>

datatype node =
    Tag string "string list option" "(string \<times> string) list" "node list"
  | NavigableString string

fun node_class :: "node \<Rightarrow> string list option" where
  "node_class (Tag n c a cs) = c"
| "node_class (NavigableString s) = None"

fun node_attrs :: "node \<Rightarrow> (string \<times> string) list" where
  "node_attrs (Tag n c a cs) = a"
| "node_attrs (NavigableString s) = []"

text \<open>Every node below a node, in document order (the order \<^verbatim>\<open>find_all\<close> walks).\<close>

fun descendants :: "node \<Rightarrow> node list" where
  "descendants (Tag n c a cs) = concat (map (\<lambda>x. x # descendants x) cs)"
| "descendants (NavigableString s) = []"

text \<open>\<^verbatim>\<open>tag.text\<close>: the strings below the tag, concatenated.\<close>

fun text_of :: "node \<Rightarrow> string" where
  "text_of (Tag n c a cs) = concat (map text_of cs)"
| "text_of (NavigableString s) = s"

text \<open>
  \<^verbatim>\<open>find_all(name)\<close> and \<^verbatim>\<open>find_all(name, attrs={'class': k})\<close>: the tags below with
  that name and, when a class is asked for, with \<open>k\<close> among their class names.
  \<open>find_tag\<close> is \<^verbatim>\<open>find\<close>: the first of them, or \<^verbatim>\<open>None\<close>.
\<close>

fun matches :: "string \<Rightarrow> string option \<Rightarrow> node \<Rightarrow> bool" where
  "matches name cls (Tag n c a cs) =
     (n = name \<and>
      (case cls of
         None \<Rightarrow> True
       | Some k \<Rightarrow> (case c of None \<Rightarrow> False | Some ks \<Rightarrow> k \<in> set ks)))"
| "matches name cls (NavigableString s) = False"

definition find_all :: "node \<Rightarrow> string \<Rightarrow> string option \<Rightarrow> node list" where
  "find_all t name cls = filter (matches name cls) (descendants t)"

definition find_tag :: "node \<Rightarrow> string \<Rightarrow> string option \<Rightarrow> node option" where
  "find_tag t name cls = (case find_all t name cls of [] \<Rightarrow> None | x # xs \<Rightarrow> Some x)"

text \<open>
  A Python \<^verbatim>\<open>dict\<close> (and \<^verbatim>\<open>defaultdict(list)\<close>) keeps its keys in insertion order:
  an association list with each key once. \<open>dict_setitem\<close> is \<^verbatim>\<open>d[k] = v\<close>: the value
  of the key is replaced where it stands, and a missing key is added at the end.
  \<open>dict_extend\<close> is \<^verbatim>\<open>d[k].extend(xs)\<close> on a \<^verbatim>\<open>defaultdict(list)\<close>, which first
  stores an empty list under a missing key.
\<close>

fun dict_setitem :: "'k \<Rightarrow> 'v \<Rightarrow> ('k \<times> 'v) list \<Rightarrow> ('k \<times> 'v) list" where
  "dict_setitem k v [] = [(k, v)]"
| "dict_setitem k v ((k', v') # d) =
     (if k' = k then (k, v) # d else (k', v') # dict_setitem k v d)"

fun dict_extend :: "'k \<Rightarrow> 'v list \<Rightarrow> ('k \<times> 'v list) list \<Rightarrow> ('k \<times> 'v list) list" where
  "dict_extend k xs [] = [(k, xs)]"
| "dict_extend k xs ((k', v') # d) =
     (if k' = k then (k, v' @ xs) # d else (k', v') # dict_extend k xs d)"

text \<open>\<^verbatim>\<open>xs[i]\<close> for an index that is never negative.\<close>

definition py_index :: "'a list \<Rightarrow> nat \<Rightarrow> py_error + 'a" where
  "py_index xs i = (if i < length xs then Inr (xs ! i) else Inl IndexError)"

section \<open>Tide row extractor\<close>

text \<open>A tide reading is the tuple (time, height, units); the time is \<^verbatim>\<open>None\<close> when it did not parse.\<close>

type_synonym 'f reading = "time option \<times> 'f \<times> string"

text \<open>\<^verbatim>\<open>td.attrs['class']\<close> raises KeyError on a cell without a class attribute.\<close>

fun has_tide_info_loop :: "string \<Rightarrow> node list \<Rightarrow> py_error + bool" where
  "has_tide_info_loop tide_type [] = Inr False"
| "has_tide_info_loop tide_type (td # tds) =
     (case node_class td of
        None \<Rightarrow> Inl KeyError
      | Some ks \<Rightarrow>
          if (''tide-table__part--'' @ tide_type) \<in> set ks then Inr True
          else has_tide_info_loop tide_type tds)"

definition has_tide_info :: "node \<Rightarrow> string \<Rightarrow> py_error + bool" where
  "has_tide_info tr tide_type = has_tide_info_loop tide_type (find_all tr ''td'' None)"

definition get_value_height_unit :: "node \<Rightarrow> node option \<times> node option \<times> node option" where
  "get_value_height_unit container =
     (find_tag container ''span'' (Some ''tide-table__value-low''),
      find_tag container ''span'' (Some ''tide-table__height''),
      find_tag container ''span'' (Some ''tide-table__units''))"

text \<open>
  The four lines both branches of \<^verbatim>\<open>get_data\<close> repeat: look the three spans up in the
  container and, when all three are there, append the row. A tag is always true in
  Python, so \<^verbatim>\<open>all((value, height, units))\<close> says that none of them is \<^verbatim>\<open>None\<close>.
  \<^verbatim>\<open>float(height.text)\<close> raises ValueError.
\<close>

definition append_row :: "'f pylib \<Rightarrow> node \<Rightarrow> 'f reading list \<Rightarrow> py_error + 'f reading list" where
  "append_row L container data =
     (case get_value_height_unit container of
        (Some value, Some height, Some units) \<Rightarrow>
          (case py_float L (text_of height) of
             None \<Rightarrow> Inl ValueError
           | Some h \<Rightarrow> Inr (data @ [(parse_time_str L (text_of value), h, text_of units)]))
      | _ \<Rightarrow> Inr data)"

fun append_rows :: "'f pylib \<Rightarrow> node list \<Rightarrow> 'f reading list \<Rightarrow> py_error + 'f reading list" where
  "append_rows L [] data = Inr data"
| "append_rows L (d # divs) data =
     (case append_row L d data of
        Inl e \<Rightarrow> Inl e
      | Inr data' \<Rightarrow> append_rows L divs data')"

definition get_data :: "'f pylib \<Rightarrow> node \<Rightarrow> py_error + 'f reading list" where
  "get_data L td =
     (let divs = find_all td ''div'' None in
      if length divs = 1 then append_row L td []
      else if length divs = 2 then append_rows L divs []
      else Inr [])"

text \<open>
  The loop \<^verbatim>\<open>for _ in range(0, cols)\<close> of \<^verbatim>\<open>get_tides\<close>, with \<open>n\<close> rounds to go: it
  gives the new dictionary and the new \<^verbatim>\<open>td_index\<close>.
\<close>

fun cols_loop ::
  "'f pylib \<Rightarrow> node list \<Rightarrow> date \<Rightarrow> nat \<Rightarrow> (date \<times> 'f reading list) list \<Rightarrow> nat
     \<Rightarrow> py_error + ((date \<times> 'f reading list) list \<times> nat)" where
  "cols_loop L tds dt 0 tides td_index = Inr (tides, td_index)"
| "cols_loop L tds dt (Suc n) tides td_index =
     (case py_index tds td_index of
        Inl e \<Rightarrow> Inl e
      | Inr td \<Rightarrow>
          (case get_data L td of
             Inl e \<Rightarrow> Inl e
           | Inr data \<Rightarrow>
               cols_loop L tds dt n
                 (if data \<noteq> [] then dict_extend dt data tides else tides)
                 (td_index + 1)))"

text \<open>
  The loop \<^verbatim>\<open>while True\<close> of \<^verbatim>\<open>get_tides\<close> over one row (\<open>day_no\<close> is the
  variable \<^verbatim>\<open>day\<close>): it ends by the \<^verbatim>\<open>return tides\<close> once \<^verbatim>\<open>td_index\<close> has
  reached the end of the row, or by an exception: \<^verbatim>\<open>dates_from_table[day]\<close> raises
  IndexError when the days have run out.
\<close>

function row_loop ::
  "'f pylib \<Rightarrow> node list \<Rightarrow> (date \<times> int) list \<Rightarrow> (date \<times> 'f reading list) list
     \<Rightarrow> nat \<Rightarrow> nat \<Rightarrow> py_error + (date \<times> 'f reading list) list" where
  "row_loop L tds dates_from_table tides td_index day_no =
     (if td_index \<ge> length tds then Inr tides
      else
        (case py_index dates_from_table day_no of
           Inl e \<Rightarrow> Inl e
         | Inr (dt, cols) \<Rightarrow>
             if cols = 0 then
               (case get_data L (tds ! td_index) of
                  Inl e \<Rightarrow> Inl e
                | Inr data \<Rightarrow>
                    row_loop L tds dates_from_table (dict_setitem dt data tides)
                      (td_index + 1) (day_no + 1))
             else
               (case cols_loop L tds dt (nat cols) tides td_index of
                  Inl e \<Rightarrow> Inl e
                | Inr (tides', td_index') \<Rightarrow>
                    row_loop L tds dates_from_table tides' td_index' (day_no + 1))))"
  by pat_completeness auto
termination
  by (relation "measure (\<lambda>(L, tds, dates, tides, td_index, day_no). length dates - day_no)")
     (auto simp: py_index_def split: if_splits)

text \<open>
  The loop \<^verbatim>\<open>for tr in trs\<close>: a row without a low-tide cell is passed over; the first
  row with one is handed to the \<^verbatim>\<open>while\<close> loop, which returns from \<^verbatim>\<open>get_tides\<close>.
  When the rows run out the function ends without a \<^verbatim>\<open>return\<close>: its value is
  \<^verbatim>\<open>None\<close>.
\<close>

fun rows_loop ::
  "'f pylib \<Rightarrow> node list \<Rightarrow> (date \<times> int) list \<Rightarrow> (date \<times> 'f reading list) list
     \<Rightarrow> py_error + (date \<times> 'f reading list) list option" where
  "rows_loop L [] dates_from_table tides = Inr None"
| "rows_loop L (tr # trs) dates_from_table tides =
     (case has_tide_info tr ''low'' of
        Inl e \<Rightarrow> Inl e
      | Inr False \<Rightarrow> rows_loop L trs dates_from_table tides
      | Inr True \<Rightarrow>
          (case row_loop L (find_all tr ''td'' None) dates_from_table tides 0 0 of
             Inl e \<Rightarrow> Inl e
           | Inr tides' \<Rightarrow> Inr (Some tides')))"

definition get_tides ::
  "'f pylib \<Rightarrow> node \<Rightarrow> (date \<times> int) list
     \<Rightarrow> py_error + (date \<times> 'f reading list) list option" where
  "get_tides L table dates_from_table =
     rows_loop L (find_all table ''tr'' (Some ''tide-table__separator'')) dates_from_table []"

section \<open>Sunrise and sunset extractor\<close>

text \<open>
  The loop \<^verbatim>\<open>for td in tds\<close> of \<^verbatim>\<open>get_rise_and_set\<close>, carrying \<^verbatim>\<open>times_\<close>,
  \<^verbatim>\<open>sunrise\<close> and \<^verbatim>\<open>sunset\<close>. \<^verbatim>\<open>td.find('div')\<close> is \<^verbatim>\<open>None\<close> in a cell without a
  div, and \<^verbatim>\<open>div.text\<close> then raises AttributeError.
\<close>

fun sun_cells ::
  "'f pylib \<Rightarrow> node list \<Rightarrow> time option list list \<Rightarrow> time option \<Rightarrow> time option
     \<Rightarrow> py_error + (time option list list \<times> time option \<times> time option)" where
  "sun_cells L [] sun_times sunrise sunset = Inr (sun_times, sunrise, sunset)"
| "sun_cells L (td # tds) sun_times sunrise sunset =
     (if text_of td = [] then sun_cells L tds sun_times sunrise sunset
      else if sunrise = None then
        (case find_tag td ''div'' None of
           None \<Rightarrow> Inl AttributeError
         | Some d \<Rightarrow> sun_cells L tds sun_times (parse_time_str L (strip (text_of d))) sunset)
      else if sunset = None then
        (case find_tag td ''div'' None of
           None \<Rightarrow> Inl AttributeError
         | Some d \<Rightarrow> sun_cells L tds sun_times sunrise (parse_time_str L (strip (text_of d))))
      else
        (let data = map (\<lambda>d. parse_time_str L (strip (text_of d))) (find_all td ''div'' None)
         in sun_cells L tds
              (if data \<noteq> [] \<and> data \<noteq> [None, None] then sun_times @ [data] else sun_times)
              sunrise sunset))"

text \<open>One matching row: the cells, then \<^verbatim>\<open>times_.insert(0, [sunrise, sunset])\<close> when both were found
  (\<open>sun_times\<close> is the variable \<^verbatim>\<open>times_\<close>).\<close>

definition sun_row :: "'f pylib \<Rightarrow> node list \<Rightarrow> py_error + time option list list" where
  "sun_row L tds =
     (case sun_cells L tds [] None None of
        Inl e \<Rightarrow> Inl e
      | Inr (sun_times, sunrise, sunset) \<Rightarrow>
          Inr (if sunrise \<noteq> None \<and> sunset \<noteq> None then [sunrise, sunset] # sun_times else sun_times))"

text \<open>
  The loop \<^verbatim>\<open>for tr in table.find_all('tr')\<close>; its \<^verbatim>\<open>return times_\<close> ends the function
  at the first row with sun cells. When the rows run out the function ends without a
  \<^verbatim>\<open>return\<close>: its value is \<^verbatim>\<open>None\<close>.
\<close>

fun sun_rows :: "'f pylib \<Rightarrow> node list \<Rightarrow> py_error + time option list list option" where
  "sun_rows L [] = Inr None"
| "sun_rows L (tr # trs) =
     (let tds = find_all tr ''td'' (Some ''tide-table__part--sun'') in
      if tds = [] then sun_rows L trs
      else (case sun_row L tds of Inl e \<Rightarrow> Inl e | Inr sun_times \<Rightarrow> Inr (Some sun_times)))"

definition get_rise_and_set :: "'f pylib \<Rightarrow> node \<Rightarrow> py_error + time option list list option" where
  "get_rise_and_set L table = sun_rows L (find_all table ''tr'' None)"

section \<open>Day-column resolver\<close>

text \<open>
  The list comprehension of \<^verbatim>\<open>get_dates_from_table\<close>: \<^verbatim>\<open>th.attrs['data-date']\<close> raises
  KeyError, \<^verbatim>\<open>date.fromisoformat\<close> and \<^verbatim>\<open>int\<close> raise ValueError;
  \<^verbatim>\<open>th.attrs.get('colspan', 0)\<close> is the number 0 when the attribute is missing.
\<close>

fun dates_of_ths :: "'f pylib \<Rightarrow> node list \<Rightarrow> py_error + (date \<times> int) list" where
  "dates_of_ths L [] = Inr []"
| "dates_of_ths L (th # ths) =
     (case map_of (node_attrs th) ''data-date'' of
        None \<Rightarrow> Inl KeyError
      | Some s \<Rightarrow>
          (case py_fromisoformat L s of
             None \<Rightarrow> Inl ValueError
           | Some d \<Rightarrow>
               (case (case map_of (node_attrs th) ''colspan'' of
                        None \<Rightarrow> Some 0
                      | Some c \<Rightarrow> py_int L c) of
                  None \<Rightarrow> Inl ValueError
                | Some cols \<Rightarrow>
                    (case dates_of_ths L ths of
                       Inl e \<Rightarrow> Inl e
                     | Inr rest \<Rightarrow> Inr ((d, cols) # rest)))))"

definition get_dates_from_table :: "'f pylib \<Rightarrow> node \<Rightarrow> py_error + (date \<times> int) list" where
  "get_dates_from_table L table =
     dates_of_ths L (find_all table ''th'' (Some ''tide-table__day''))"

section \<open>Daylight filter\<close>

text \<open>\<^verbatim>\<open>a <= b\<close> on times; with \<^verbatim>\<open>None\<close> on either side Python raises TypeError.\<close>

definition py_le :: "time option \<Rightarrow> time option \<Rightarrow> py_error + bool" where
  "py_le a b =
     (case (a, b) of
        (Some x, Some y) \<Rightarrow> Inr (time_le x y)
      | _ \<Rightarrow> Inl TypeError)"

text \<open>
  The test \<^verbatim>\<open>rise_and_set[indx][0] <= tide_time <= rise_and_set[indx][1]\<close>. Python
  evaluates the right comparison, and its operand, only when the left one holds.
  Subscripting \<^verbatim>\<open>None\<close> (no sun row in the table) raises TypeError.
\<close>

definition in_window ::
  "time option list list option \<Rightarrow> nat \<Rightarrow> time option \<Rightarrow> py_error + bool" where
  "in_window rise_and_set indx tide_time =
     (case rise_and_set of
        None \<Rightarrow> Inl TypeError
      | Some ras \<Rightarrow>
          (case py_index ras indx of
             Inl e \<Rightarrow> Inl e
           | Inr w \<Rightarrow>
               (case py_index w 0 of
                  Inl e \<Rightarrow> Inl e
                | Inr sunrise \<Rightarrow>
                    (case py_le sunrise tide_time of
                       Inl e \<Rightarrow> Inl e
                     | Inr False \<Rightarrow> Inr False
                     | Inr True \<Rightarrow>
                         (case py_index w 1 of
                            Inl e \<Rightarrow> Inl e
                          | Inr sunset \<Rightarrow> py_le tide_time sunset)))))"

text \<open>The inner loop \<^verbatim>\<open>for tide_time, value, units in tide_data\<close>.\<close>

fun filter_day ::
  "time option list list option \<Rightarrow> nat \<Rightarrow> date \<Rightarrow> 'f reading list
     \<Rightarrow> (date \<times> 'f reading list) list \<Rightarrow> py_error + (date \<times> 'f reading list) list" where
  "filter_day rise_and_set indx dt [] filtered_tides = Inr filtered_tides"
| "filter_day rise_and_set indx dt ((tide_time, value, units) # tide_data) filtered_tides =
     (case in_window rise_and_set indx tide_time of
        Inl e \<Rightarrow> Inl e
      | Inr keep \<Rightarrow>
          filter_day rise_and_set indx dt tide_data
            (if keep then dict_extend dt [(tide_time, value, units)] filtered_tides
             else filtered_tides))"

text \<open>The outer loop over \<^verbatim>\<open>enumerate(tides_for_location.items())\<close>.\<close>

fun filter_days ::
  "time option list list option \<Rightarrow> nat \<Rightarrow> (date \<times> 'f reading list) list
     \<Rightarrow> (date \<times> 'f reading list) list \<Rightarrow> py_error + (date \<times> 'f reading list) list" where
  "filter_days rise_and_set indx [] filtered_tides = Inr filtered_tides"
| "filter_days rise_and_set indx ((dt, tide_data) # items) filtered_tides =
     (case filter_day rise_and_set indx dt tide_data filtered_tides of
        Inl e \<Rightarrow> Inl e
      | Inr filtered_tides' \<Rightarrow> filter_days rise_and_set (indx + 1) items filtered_tides')"

text \<open>
  Lines 236 to 243 of \<^verbatim>\<open>extract_tides\<close>. \<^verbatim>\<open>tides_for_location.items()\<close> raises
  AttributeError when \<^verbatim>\<open>get_tides\<close> gave \<^verbatim>\<open>None\<close>.
\<close>

definition daylight_filter ::
  "time option list list option \<Rightarrow> (date \<times> 'f reading list) list option
     \<Rightarrow> py_error + (date \<times> 'f reading list) list" where
  "daylight_filter rise_and_set tides_for_location =
     (case tides_for_location of
        None \<Rightarrow> Inl AttributeError
      | Some items \<Rightarrow> filter_days rise_and_set 0 items [])"

text \<open>
  \<^verbatim>\<open>extract_tides\<close> from the table on: the fetch of the page, \<^verbatim>\<open>get_table\<close>, is outside
  the model.
\<close>

definition extract_tides :: "'f pylib \<Rightarrow> node \<Rightarrow> py_error + (date \<times> 'f reading list) list" where
  "extract_tides L table =
     (case get_dates_from_table L table of
        Inl e \<Rightarrow> Inl e
      | Inr dates_from_table \<Rightarrow>
          (case get_rise_and_set L table of
             Inl e \<Rightarrow> Inl e
           | Inr rise_and_set \<Rightarrow>
               (case get_tides L table dates_from_table of
                  Inl e \<Rightarrow> Inl e
                | Inr tides_for_location \<Rightarrow> daylight_filter rise_and_set tides_for_location)))"

section \<open>Notions of the specification\<close>

text \<open>
  The names the statements below use for what the specification speaks of: a time of
  day as Python's \<^verbatim>\<open>time\<close> holds it, a reading that lies in the window from sunrise to
  sunset (both ends included), and a SunWindow as the list \<^verbatim>\<open>[sunrise, sunset]\<close> that
  \<^verbatim>\<open>get_rise_and_set\<close> builds.
\<close>

definition valid_time :: "time \<Rightarrow> bool" where
  "valid_time t = (hour t < 24 \<and> minute t < 60)"

definition in_daylight :: "time \<Rightarrow> time \<Rightarrow> 'f reading \<Rightarrow> bool" where
  "in_daylight sunrise sunset r =
     (case fst r of None \<Rightarrow> False | Some t \<Rightarrow> time_le sunrise t \<and> time_le t sunset)"

definition sun_window :: "time \<times> time \<Rightarrow> time option list" where
  "sun_window w = [Some (fst w), Some (snd w)]"

text \<open>
  The cells a day takes from a tide row (one for the column count 0, the rounds of
  \<^verbatim>\<open>range(0, cols)\<close> otherwise), and the cells a DayColumn sequence accounts for.
\<close>

definition day_cells :: "int \<Rightarrow> nat" where
  "day_cells cols = (if cols = 0 then 1 else nat cols)"

definition cells_needed :: "(date \<times> int) list \<Rightarrow> nat" where
  "cells_needed dates = sum_list (map (\<lambda>d. day_cells (snd d)) dates)"

section \<open>An example page\<close>

text \<open>
  The page the examples below are run on: two day headers (4 November 2024 without a
  colspan, 5 November 2024 with colspan 2), a row of sun cells, a separator row of high
  tides and a separator row of low tides. \<open>example_lib\<close> gives the values of the library
  functions on the strings of this page.
\<close>

definition span :: "string \<Rightarrow> string \<Rightarrow> node" where
  "span cls s = Tag ''span'' (Some [cls]) [] [NavigableString s]"

definition tide_div :: "string \<Rightarrow> string \<Rightarrow> string \<Rightarrow> node" where
  "tide_div t h u =
     Tag ''div'' None []
       [span ''tide-table__value-low'' t, span ''tide-table__height'' h,
        span ''tide-table__units'' u]"

definition low_td :: "node list \<Rightarrow> node" where
  "low_td cs = Tag ''td'' (Some [''tide-table__part'', ''tide-table__part--low'']) [] cs"

definition high_td :: "node list \<Rightarrow> node" where
  "high_td cs = Tag ''td'' (Some [''tide-table__part'', ''tide-table__part--high'']) [] cs"

definition sun_td :: "string list \<Rightarrow> node" where
  "sun_td ts =
     Tag ''td'' (Some [''tide-table__part'', ''tide-table__part--sun'']) []
       (map (\<lambda>s. Tag ''div'' None [] [NavigableString s]) ts)"

definition day_th :: "(string \<times> string) list \<Rightarrow> node" where
  "day_th attrs = Tag ''th'' (Some [''tide-table__day'']) attrs []"

definition separator_tr :: "node list \<Rightarrow> node" where
  "separator_tr tds = Tag ''tr'' (Some [''tide-table__separator'']) [] tds"

definition nov4 :: date where
  "nov4 = \<lparr>year = 2024, month = 11, day = 4\<rparr>"

definition nov5 :: date where
  "nov5 = \<lparr>year = 2024, month = 11, day = 5\<rparr>"

definition example_lib :: "real pylib" where
  "example_lib =
     \<lparr>py_strptime_time = map_of
        [(''05:45AM'', \<lparr>hour = 5, minute = 45\<rparr>), (''12:00PM'', \<lparr>hour = 12, minute = 0\<rparr>),
         (''06:30AM'', \<lparr>hour = 6, minute = 30\<rparr>), (''06:00PM'', \<lparr>hour = 18, minute = 0\<rparr>),
         (''06:00AM'', \<lparr>hour = 6, minute = 0\<rparr>), (''05:30PM'', \<lparr>hour = 17, minute = 30\<rparr>),
         (''06:01AM'', \<lparr>hour = 6, minute = 1\<rparr>), (''05:29PM'', \<lparr>hour = 17, minute = 29\<rparr>)],
      py_strptime_date = map_of
        [(''Wed 01 January'', \<lparr>year = 1900, month = 1, day = 1\<rparr>),
         (''Mon 04 November'', \<lparr>year = 1900, month = 11, day = 4\<rparr>)],
      py_float = map_of [(''1.2'', 1.2), (''0.8'', 0.8), (''1.0'', 1.0), (''0.9'', 0.9)],
      py_fromisoformat = map_of [(''2024-11-04'', nov4), (''2024-11-05'', nov5)],
      py_int = map_of [(''2'', 2)]\<rparr>"

definition header_row :: node where
  "header_row =
     Tag ''tr'' None []
       [day_th [(''data-date'', ''2024-11-04'')],
        day_th [(''data-date'', ''2024-11-05''), (''colspan'', ''2'')]]"

definition sun_cells_row :: node where
  "sun_cells_row =
     Tag ''tr'' None []
       [sun_td ['' 6:00AM''], sun_td ['' 5:30PM''], sun_td ['' 6:01AM'', '' 5:29PM'']]"

definition high_row :: node where
  "high_row = separator_tr [high_td [], high_td [], high_td []]"

definition low_row :: node where
  "low_row =
     separator_tr
       [low_td [tide_div '' 5:45AM'' ''1.2'' ''ft'', tide_div ''12:00PM'' ''0.8'' ''ft''],
        low_td [tide_div '' 6:30AM'' ''1.0'' ''ft''],
        low_td [tide_div '' 6:00PM'' ''0.9'' ''ft'']]"

definition example_table :: node where
  "example_table =
     Tag ''table'' (Some [''tide-table__table'']) []
       [header_row, sun_cells_row, high_row, low_row]"



definition no_sun_table :: node where
  "no_sun_table =
     Tag ''table'' (Some [''tide-table__table'']) [] [header_row, high_row, low_row]"


text \<open>Cells for the cases of \<open>get_data\<close>.\<close>

definition cell_empty :: node where
  "cell_empty = low_td []"

definition cell_one :: node where
  "cell_one = low_td [tide_div '' 6:30AM'' ''1.0'' ''ft'']"

definition cell_two :: node where
  "cell_two = low_td [tide_div '' 5:45AM'' ''1.2'' ''ft'', tide_div ''12:00PM'' ''0.8'' ''ft'']"

definition div_no_height :: node where
  "div_no_height =
     Tag ''div'' None []
       [span ''tide-table__value-low'' ''12:00PM'', span ''tide-table__units'' ''ft'']"

definition cell_incomplete :: node where
  "cell_incomplete = low_td [tide_div '' 5:45AM'' ''1.2'' ''ft'', div_no_height]"

definition cell_three :: node where
  "cell_three =
     low_td [tide_div '' 5:45AM'' ''1.2'' ''ft'', tide_div ''12:00PM'' ''0.8'' ''ft'',
             tide_div '' 6:30AM'' ''1.0'' ''ft'']"

text \<open>The tides and the sun windows of the example page, and two of its readings.\<close>

definition example_windows :: "(time \<times> time) list" where
  "example_windows =
     [(\<lparr>hour = 6, minute = 0\<rparr>, \<lparr>hour = 17, minute = 30\<rparr>),
      (\<lparr>hour = 6, minute = 1\<rparr>, \<lparr>hour = 17, minute = 29\<rparr>)]"

definition example_tides :: "(date \<times> real reading list) list" where
  "example_tides =
     [(nov4, [(Some \<lparr>hour = 5, minute = 45\<rparr>, 1.2, ''ft''),
              (Some \<lparr>hour = 12, minute = 0\<rparr>, 0.8, ''ft'')]),
      (nov5, [(Some \<lparr>hour = 6, minute = 30\<rparr>, 1.0, ''ft''),
              (Some \<lparr>hour = 18, minute = 0\<rparr>, 0.9, ''ft'')])]"

definition reading_noon :: "real reading" where
  "reading_noon = (Some \<lparr>hour = 12, minute = 0\<rparr>, 0.8, ''ft'')"

definition reading_morning :: "real reading" where
  "reading_morning = (Some \<lparr>hour = 6, minute = 30\<rparr>, 1.0, ''ft'')"

section \<open>Properties of the normalizer\<close>

lemma split_on_no_sep: "c \<notin> set r \<Longrightarrow> split_on c r = [r]"
  by (induction r) auto

lemma split_on_first_sep:
  "c \<notin> set l \<Longrightarrow> split_on c (l @ c # r) = l # split_on c r"
  by (induction l) auto

lemma split_on_two:
  "c \<notin> set l \<Longrightarrow> c \<notin> set r \<Longrightarrow> split_on c (l @ c # r) = [l, r]"
  by (simp add: split_on_first_sep split_on_no_sep)

lemma last2_pad_two: "length h = 2 \<Longrightarrow> last2 (c # h) = h"
  by (simp add: last2_def)

text \<open>
  Claim C8. Let the stripped time string be \<open>h:rest\<close> with a two-character hour \<open>h\<close> and
  no further colon. Then \<open>force_hour_two_digits\<close> returns \<open>12:rest\<close> when \<open>h\<close> is
  \<open>00\<close>, and \<open>h:rest\<close> itself for every other \<open>h\<close>: the hour is the last two characters of
  the string padded with a zero on the left.
\<close>

theorem force_hour_two_digits_hour:
  assumes "strip time_str = h @ CHR '':'' # rest"
    and "length h = 2"
    and "CHR '':'' \<notin> set h"
    and "CHR '':'' \<notin> set rest"
  shows "force_hour_two_digits time_str =
           Some ((if h = ''00'' then ''12'' else h) @ CHR '':'' # rest)"
proof -
  have "split_on CHR '':'' (CHR ''0'' # strip time_str) = [CHR ''0'' # h, rest]"
    using assms split_on_two [of "CHR '':''" "CHR ''0'' # h" rest] by simp
  moreover have "last2 (CHR ''0'' # h) = h"
    using assms(2) by (rule last2_pad_two)
  ultimately show ?thesis
    by (simp add: force_hour_two_digits_def fix_hour_def)
qed

theorem force_hour_two_digits_hour_witness:
  "force_hour_two_digits '' 00:30AM'' = Some ''12:30AM''
   \<and> force_hour_two_digits ''07:05PM '' = Some ''07:05PM''"
proof -
  have a: "strip '' 00:30AM'' = ''00'' @ CHR '':'' # ''30AM''"
    by code_simp
  have b: "strip ''07:05PM '' = ''07'' @ CHR '':'' # ''05PM''"
    by code_simp
  have "force_hour_two_digits '' 00:30AM'' = Some ''12:30AM''"
    using force_hour_two_digits_hour [OF a] by simp
  moreover have "force_hour_two_digits ''07:05PM '' = Some ''07:05PM''"
    using force_hour_two_digits_hour [OF b] by simp
  ultimately show ?thesis by simp
qed

lemma days_in_month_1900: "days_in_month 1900 m \<le> days_in_month y m"
  by (simp add: days_in_month_def is_leap_def)

lemma replace_year_1900:
  assumes "valid_date d" and "year d = 1900"
  shows "replace_year d y = (if 1 \<le> y \<and> y \<le> 9999 then Some (d\<lparr>year := y\<rparr>) else None)"
proof -
  have "day d \<le> days_in_month y (month d)"
    using assms days_in_month_1900 [of "month d" y] by (simp add: valid_date_def)
  then show ?thesis
    using assms by (simp add: replace_year_def valid_date_def)
qed

text \<open>
  Claim C9. Let strptime accept the year-less string and give the date \<open>d\<close> (a date of
  the year 1900, the year strptime fills in), and let \<open>today\<close> be a date. The inferred year
  is the current year plus one when today's month is December and the parsed month is
  January, and the current year otherwise. Whenever \<open>parse_date_str\<close> returns a date, it is
  \<open>d\<close> with the inferred year; and it returns that date whenever the inferred year is a
  year a Python date can hold (at most 9999).
\<close>

theorem parse_date_str_year:
  fixes L :: "'f pylib"
  defines "inferred \<equiv> (\<lambda>today d.
             if month today = 12 \<and> month d = 1 then year today + 1 else year today)"
  assumes p: "py_strptime_date L date_str = Some d"
    and v: "valid_date d" and y: "year d = 1900"
    and t: "valid_date today"
  shows "(\<forall>r. parse_date_str L today date_str = Some r \<longrightarrow> r = d\<lparr>year := inferred today d\<rparr>)
         \<and> (inferred today d \<le> 9999 \<longrightarrow>
              parse_date_str L today date_str = Some (d\<lparr>year := inferred today d\<rparr>))"
proof -
  have "parse_date_str L today date_str = replace_year d (inferred today d)"
    using p by (simp add: parse_date_str_def adjust_year_def inferred_def)
  moreover have "1 \<le> inferred today d"
    using t by (simp add: inferred_def valid_date_def)
  ultimately show ?thesis
    using replace_year_1900 [OF v y, of "inferred today d"] by simp
qed

theorem parse_date_str_year_witness:
  "parse_date_str example_lib \<lparr>year = 2024, month = 12, day = 15\<rparr> ''Wed 01 January''
     = Some \<lparr>year = 2025, month = 1, day = 1\<rparr>
   \<and> parse_date_str example_lib \<lparr>year = 2024, month = 12, day = 15\<rparr> ''Mon 04 November''
     = Some \<lparr>year = 2024, month = 11, day = 4\<rparr>"
proof -
  have t: "valid_date \<lparr>year = 2024, month = 12, day = 15\<rparr>"
    by code_simp
  have a: "py_strptime_date example_lib ''Wed 01 January''
             = Some \<lparr>year = 1900, month = 1, day = 1\<rparr>"
    by code_simp
  have va: "valid_date \<lparr>year = 1900, month = 1, day = 1\<rparr>"
    by code_simp
  have b: "py_strptime_date example_lib ''Mon 04 November''
             = Some \<lparr>year = 1900, month = 11, day = 4\<rparr>"
    by code_simp
  have vb: "valid_date \<lparr>year = 1900, month = 11, day = 4\<rparr>"
    by code_simp
  have "parse_date_str example_lib \<lparr>year = 2024, month = 12, day = 15\<rparr> ''Wed 01 January''
     = Some \<lparr>year = 2025, month = 1, day = 1\<rparr>"
    using parse_date_str_year [OF a va _ t, THEN conjunct2] by simp
  moreover have "parse_date_str example_lib \<lparr>year = 2024, month = 12, day = 15\<rparr> ''Mon 04 November''
     = Some \<lparr>year = 2024, month = 11, day = 4\<rparr>"
    using parse_date_str_year [OF b vb _ t, THEN conjunct2] by simp
  ultimately show ?thesis by simp
qed

section \<open>Properties of get_data\<close>

lemma append_row_cases:
  "append_row L c data = Inl ValueError \<or> append_row L c data = Inr data \<or>
   (\<exists>r. append_row L c data = Inr (data @ [r]))"
  by (auto simp: append_row_def split: prod.splits option.splits)

lemma append_rows_result:
  "(case append_rows L cs data of
      Inl e \<Rightarrow> e = ValueError
    | Inr data' \<Rightarrow> length data' \<le> length data + length cs)"
proof (induction cs arbitrary: data)
  case Nil
  then show ?case by simp
next
  case (Cons c cs)
  consider "append_row L c data = Inl ValueError"
    | "append_row L c data = Inr data"
    | r where "append_row L c data = Inr (data @ [r])"
    using append_row_cases [of L c data] by blast
  then show ?case
  proof cases
    case 1
    then show ?thesis by simp
  next
    case 2
    then show ?thesis
      using Cons.IH [where data = data] by (simp split: sum.splits)
  next
    case 3
    then show ?thesis
      using Cons.IH [where data = "data @ [r]"] by (simp split: sum.splits)
  qed
qed

text \<open>
  Claim C7. The nested value groups of a cell are the divs \<^verbatim>\<open>td.find_all('div')\<close> finds.
  A triple is complete when its value, height and unit spans are all found; its height
  text is a number (\<^verbatim>\<open>float\<close> accepts it). Then \<open>get_data\<close> returns
  \<^item> no reading for a cell without a div;
  \<^item> the one reading of a cell with one div and a complete triple;
  \<^item> the two readings, in order, of a cell with two divs that each hold a complete triple;
  \<^item> only the complete reading of a cell with two divs of which one holds a complete
    triple and the other lacks the height span (in either order).
\<close>

theorem get_data_readings:
  "(find_all td ''div'' None = [] \<longrightarrow> get_data L td = Inr [])
   \<and> (length (find_all td ''div'' None) = 1
        \<and> get_value_height_unit td = (Some v, Some h, Some u)
        \<and> py_float L (text_of h) = Some x
      \<longrightarrow> get_data L td = Inr [(parse_time_str L (text_of v), x, text_of u)])
   \<and> (find_all td ''div'' None = [d1, d2]
        \<and> get_value_height_unit d1 = (Some v1, Some h1, Some u1)
        \<and> py_float L (text_of h1) = Some x1
        \<and> get_value_height_unit d2 = (Some v2, Some h2, Some u2)
        \<and> py_float L (text_of h2) = Some x2
      \<longrightarrow> get_data L td =
            Inr [(parse_time_str L (text_of v1), x1, text_of u1),
                 (parse_time_str L (text_of v2), x2, text_of u2)])
   \<and> (find_all td ''div'' None = [d1, d2]
        \<and> get_value_height_unit d1 = (Some v1, Some h1, Some u1)
        \<and> py_float L (text_of h1) = Some x1
        \<and> get_value_height_unit d2 = (w2, None, z2)
      \<longrightarrow> get_data L td = Inr [(parse_time_str L (text_of v1), x1, text_of u1)])
   \<and> (find_all td ''div'' None = [d1, d2]
        \<and> get_value_height_unit d1 = (w1, None, z1)
        \<and> get_value_height_unit d2 = (Some v2, Some h2, Some u2)
        \<and> py_float L (text_of h2) = Some x2
      \<longrightarrow> get_data L td = Inr [(parse_time_str L (text_of v2), x2, text_of u2)])"
  by (auto simp: get_data_def Let_def append_row_def split: option.splits)

theorem get_data_readings_witness:
  "get_data example_lib cell_empty = Inr []
   \<and> get_data example_lib cell_one = Inr [(Some \<lparr>hour = 6, minute = 30\<rparr>, 1.0, ''ft'')]
   \<and> get_data example_lib cell_two =
       Inr [(Some \<lparr>hour = 5, minute = 45\<rparr>, 1.2, ''ft''),
            (Some \<lparr>hour = 12, minute = 0\<rparr>, 0.8, ''ft'')]
   \<and> get_data example_lib cell_incomplete = Inr [(Some \<lparr>hour = 5, minute = 45\<rparr>, 1.2, ''ft'')]"
proof -
  let ?v = "span ''tide-table__value-low''"
  let ?h = "span ''tide-table__height''"
  let ?u = "span ''tide-table__units''"
  have h0: "find_all cell_empty ''div'' None = []"
    by code_simp
  have r0: "get_data example_lib cell_empty = Inr []"
    using get_data_readings [where L = example_lib and td = cell_empty] h0 by blast
  have h1: "length (find_all cell_one ''div'' None) = 1
      \<and> get_value_height_unit cell_one = (Some (?v '' 6:30AM''), Some (?h ''1.0''), Some (?u ''ft''))
      \<and> py_float example_lib (text_of (?h ''1.0'')) = Some 1.0"
    by code_simp
  have r1: "get_data example_lib cell_one =
      Inr [(parse_time_str example_lib (text_of (?v '' 6:30AM'')), 1.0, text_of (?u ''ft''))]"
    using get_data_readings [where L = example_lib and td = cell_one] h1 by blast
  have e1: "(parse_time_str example_lib (text_of (?v '' 6:30AM'')), 1.0 :: real, text_of (?u ''ft''))
      = (Some \<lparr>hour = 6, minute = 30\<rparr>, 1.0, ''ft'')"
    by code_simp
  have h2: "find_all cell_two ''div'' None
        = [tide_div '' 5:45AM'' ''1.2'' ''ft'', tide_div ''12:00PM'' ''0.8'' ''ft'']
      \<and> get_value_height_unit (tide_div '' 5:45AM'' ''1.2'' ''ft'')
          = (Some (?v '' 5:45AM''), Some (?h ''1.2''), Some (?u ''ft''))
      \<and> py_float example_lib (text_of (?h ''1.2'')) = Some 1.2
      \<and> get_value_height_unit (tide_div ''12:00PM'' ''0.8'' ''ft'')
          = (Some (?v ''12:00PM''), Some (?h ''0.8''), Some (?u ''ft''))
      \<and> py_float example_lib (text_of (?h ''0.8'')) = Some 0.8"
    by code_simp
  have r2: "get_data example_lib cell_two =
      Inr [(parse_time_str example_lib (text_of (?v '' 5:45AM'')), 1.2, text_of (?u ''ft'')),
           (parse_time_str example_lib (text_of (?v ''12:00PM'')), 0.8, text_of (?u ''ft''))]"
    using get_data_readings [where L = example_lib and td = cell_two] h2 by blast
  have e2: "(parse_time_str example_lib (text_of (?v '' 5:45AM'')), 1.2 :: real, text_of (?u ''ft''))
      = (Some \<lparr>hour = 5, minute = 45\<rparr>, 1.2, ''ft'')"
    by code_simp
  have e3: "(parse_time_str example_lib (text_of (?v ''12:00PM'')), 0.8 :: real, text_of (?u ''ft''))
      = (Some \<lparr>hour = 12, minute = 0\<rparr>, 0.8, ''ft'')"
    by code_simp
  have h3: "find_all cell_incomplete ''div'' None
        = [tide_div '' 5:45AM'' ''1.2'' ''ft'', div_no_height]
      \<and> get_value_height_unit (tide_div '' 5:45AM'' ''1.2'' ''ft'')
          = (Some (?v '' 5:45AM''), Some (?h ''1.2''), Some (?u ''ft''))
      \<and> py_float example_lib (text_of (?h ''1.2'')) = Some 1.2
      \<and> get_value_height_unit div_no_height = (Some (?v ''12:00PM''), None, Some (?u ''ft''))"
    by code_simp
  have r3: "get_data example_lib cell_incomplete =
      Inr [(parse_time_str example_lib (text_of (?v '' 5:45AM'')), 1.2, text_of (?u ''ft''))]"
    using get_data_readings [where L = example_lib and td = cell_incomplete] h3 by blast
  show ?thesis
    by (simp only: r0 r1 r2 r3 e1 e2 e3)
qed

text \<open>
  Claim C10. \<open>get_data\<close> either raises the ValueError of a height that is not a number
  or returns at most two readings; and a cell in which the number of divs is neither 1 nor
  2 gives the empty list.
\<close>

theorem get_data_at_most_two:
  "(case get_data L td of Inl e \<Rightarrow> e = ValueError | Inr data \<Rightarrow> length data \<le> 2)
   \<and> (length (find_all td ''div'' None) \<notin> {1, 2} \<longrightarrow> get_data L td = Inr [])"
proof -
  have one: "case append_row L td [] of Inl e \<Rightarrow> e = ValueError | Inr data \<Rightarrow> length data \<le> 2"
    using append_row_cases [of L td "[]"] by auto
  have two: "case append_rows L (find_all td ''div'' None) [] of
               Inl e \<Rightarrow> e = ValueError | Inr data \<Rightarrow> length data \<le> 2"
    if "length (find_all td ''div'' None) = 2"
    using that append_rows_result [where L = L and cs = "find_all td ''div'' None" and data = "[]"]
    by (simp split: sum.splits)
  show ?thesis
    using one two by (simp add: get_data_def Let_def)
qed

theorem get_data_at_most_two_witness:
  "get_data example_lib cell_three = Inr []"
proof -
  have "length (find_all cell_three ''div'' None) \<notin> {1, 2}"
    by code_simp
  then show ?thesis
    using get_data_at_most_two [of example_lib cell_three] by blast
qed

section \<open>Properties of the daylight filter\<close>

lemma dict_extend_keys: "fst ` set (dict_extend k xs d) = insert k (fst ` set d)"
  by (induction d) (force split: if_splits)+


lemma dict_extend_extend:
  "dict_extend k ys (dict_extend k xs d) = dict_extend k (xs @ ys) d"
  by (induction d) auto

lemma in_daylight_Some [simp]:
  "in_daylight sr ss (Some t, v, u) = (time_le sr t \<and> time_le t ss)"
  by (simp add: in_daylight_def)

lemma dict_extend_new: "k \<notin> fst ` set d \<Longrightarrow> dict_extend k xs d = d @ [(k, xs)]"
  by (induction d) auto

lemma in_window_pair:
  assumes "indx < length ws" and "ws ! indx = [Some sr, Some ss]"
  shows "in_window (Some ws) indx (Some t) = Inr (time_le sr t \<and> time_le t ss)"
  using assms by (simp add: in_window_def py_index_def py_le_def split: bool.splits)

lemma filter_day_kept:
  assumes "indx < length ws" and "ws ! indx = [Some sr, Some ss]"
    and "\<forall>r \<in> set tide_data. fst r \<noteq> None"
  shows "filter_day (Some ws) indx dt tide_data acc =
           Inr (if filter (in_daylight sr ss) tide_data = [] then acc
                else dict_extend dt (filter (in_daylight sr ss) tide_data) acc)"
  using assms(3)
proof (induction tide_data arbitrary: acc)
  case Nil
  then show ?case by simp
next
  case (Cons r rs)
  obtain t v u where r: "r = (Some t, v, u)"
    using Cons.prems by (cases r) auto
  have w: "in_window (Some ws) indx (Some t) = Inr (time_le sr t \<and> time_le t ss)"
    using assms(1,2) by (rule in_window_pair)
  have ih: "filter_day (Some ws) indx dt rs acc' =
           Inr (if filter (in_daylight sr ss) rs = [] then acc'
                else dict_extend dt (filter (in_daylight sr ss) rs) acc')" for acc'
    using Cons.IH Cons.prems by simp
  show ?case
    by (simp add: r w ih dict_extend_extend)
qed

lemma filter_days_closed:
  assumes "distinct (map fst items)"
    and "fst ` set items \<inter> fst ` set acc = {}"
    and "indx + length items \<le> length wins"
    and "\<forall>(dt, rs) \<in> set items. \<forall>r \<in> set rs. fst r \<noteq> None"
  shows "filter_days (Some (map sun_window wins)) indx items acc =
           Inr (acc @ filter (\<lambda>(dt, rs). rs \<noteq> [])
                  (map (\<lambda>((sr, ss), (dt, rs)). (dt, filter (in_daylight sr ss) rs))
                     (zip (drop indx wins) items)))"
  using assms
proof (induction items arbitrary: indx acc)
  case Nil
  then show ?case by simp
next
  case (Cons item items)
  obtain dt rs where item: "item = (dt, rs)" by (cases item)
  obtain sr ss where win: "wins ! indx = (sr, ss)" by (cases "wins ! indx")
  have lt: "indx < length wins" using Cons.prems(3) by simp
  have dr: "drop indx wins = (sr, ss) # drop (Suc indx) wins"
    using lt win by (simp add: Cons_nth_drop_Suc [symmetric])
  let ?kept = "filter (in_daylight sr ss) rs"
  let ?acc = "if ?kept = [] then acc else acc @ [(dt, ?kept)]"
  have new: "dt \<notin> fst ` set acc"
    using Cons.prems(2) item by auto
  have day: "filter_day (Some (map sun_window wins)) indx dt rs acc = Inr ?acc"
    using filter_day_kept [of indx "map sun_window wins" sr ss rs dt acc] lt win Cons.prems(4) item new
    by (simp add: sun_window_def dict_extend_new)
  have disj: "fst ` set items \<inter> fst ` set ?acc = {}"
    using Cons.prems(1,2) item by auto
  have "filter_days (Some (map sun_window wins)) (Suc indx) items ?acc =
           Inr (?acc @ filter (\<lambda>(dt, rs). rs \<noteq> [])
                  (map (\<lambda>((sr, ss), (dt, rs)). (dt, filter (in_daylight sr ss) rs))
                     (zip (drop (Suc indx) wins) items)))"
    using Cons.IH [of ?acc "Suc indx"] Cons.prems disj by simp
  then show ?case
    by (simp add: item day dr)
qed

lemma time_le_refl: "time_le t t"
  by (simp add: time_le_def)

lemma time_le_minutes:
  "valid_time a \<Longrightarrow> valid_time b \<Longrightarrow> time_le a b = (minute_of_day a \<le> minute_of_day b)"
  by (auto simp: time_le_def valid_time_def minute_of_day_def)

lemma in_window_sun_window:
  assumes "i < length wins" and "wins ! i = (sr, ss)"
  shows "in_window (Some (map sun_window wins)) i (Some t) = Inr (time_le sr t \<and> time_le t ss)"
  using assms by (simp add: in_window_pair sun_window_def)

text \<open>
  Claim C3. Let the dates of the tide mapping be distinct, let every date have its
  SunWindow (sunrise, sunset) at the same position, and let every reading have a time.
  Then the filter returns, date by date and in the order of the readings, exactly the
  readings whose time \<open>t\<close> satisfies sunrise \<open>\<le>\<close> t \<open>\<le>\<close> sunset; a date none of whose
  readings is kept gets no entry. The test the filter applies to a reading holds at
  sunrise and at sunset themselves (when sunrise is not after sunset), and fails one
  minute before sunrise and one minute after sunset.
\<close>

theorem daylight_filter_retains:
  fixes tides :: "(date \<times> 'f reading list) list"
  assumes "distinct (map fst tides)"
    and "length tides \<le> length wins"
    and "\<forall>(dt, rs) \<in> set tides. \<forall>r \<in> set rs. fst r \<noteq> None"
  shows "daylight_filter (Some (map sun_window wins)) (Some tides) =
           Inr (filter (\<lambda>(dt, rs). rs \<noteq> [])
                  (map (\<lambda>((sr, ss), (dt, rs)). (dt, filter (in_daylight sr ss) rs))
                     (zip wins tides)))
         \<and> (\<forall>i sr ss. i < length wins \<and> wins ! i = (sr, ss) \<longrightarrow>
              (\<forall>t. in_window (Some (map sun_window wins)) i (Some t)
                     = Inr (time_le sr t \<and> time_le t ss))
              \<and> (time_le sr ss \<longrightarrow>
                    in_window (Some (map sun_window wins)) i (Some sr) = Inr True
                  \<and> in_window (Some (map sun_window wins)) i (Some ss) = Inr True)
              \<and> (\<forall>t. valid_time t \<and> valid_time sr \<and> minute_of_day t + 1 = minute_of_day sr
                    \<longrightarrow> in_window (Some (map sun_window wins)) i (Some t) = Inr False)
              \<and> (\<forall>t. valid_time t \<and> valid_time ss \<and> minute_of_day t = minute_of_day ss + 1
                    \<longrightarrow> in_window (Some (map sun_window wins)) i (Some t) = Inr False))"
proof -
  have closed: "daylight_filter (Some (map sun_window wins)) (Some tides) =
           Inr (filter (\<lambda>(dt, rs). rs \<noteq> [])
                  (map (\<lambda>((sr, ss), (dt, rs)). (dt, filter (in_daylight sr ss) rs))
                     (zip wins tides)))"
    using filter_days_closed [of tides "[]" 0 wins] assms
    by (simp add: daylight_filter_def)
  have bounds: "in_window (Some (map sun_window wins)) i (Some sr) = Inr True
       \<and> in_window (Some (map sun_window wins)) i (Some ss) = Inr True"
    if "i < length wins" "wins ! i = (sr, ss)" "time_le sr ss" for i sr ss
    using that by (simp add: in_window_sun_window time_le_refl)
  have before: "in_window (Some (map sun_window wins)) i (Some t) = Inr False"
    if "i < length wins" "wins ! i = (sr, ss)" "valid_time t" "valid_time sr"
       "minute_of_day t + 1 = minute_of_day sr" for i sr ss t
    using that by (simp add: in_window_sun_window time_le_minutes)
  have after: "in_window (Some (map sun_window wins)) i (Some t) = Inr False"
    if "i < length wins" "wins ! i = (sr, ss)" "valid_time t" "valid_time ss"
       "minute_of_day t = minute_of_day ss + 1" for i sr ss t
    using that by (simp add: in_window_sun_window time_le_minutes)
  show ?thesis
    using closed bounds before after in_window_sun_window by blast
qed

theorem daylight_filter_retains_witness:
  "daylight_filter (Some (map sun_window example_windows)) (Some example_tides) =
     Inr [(nov4, [(Some \<lparr>hour = 12, minute = 0\<rparr>, 0.8, ''ft'')]),
          (nov5, [(Some \<lparr>hour = 6, minute = 30\<rparr>, 1.0, ''ft'')])]
   \<and> in_window (Some (map sun_window example_windows)) 0 (Some \<lparr>hour = 6, minute = 0\<rparr>) = Inr True
   \<and> in_window (Some (map sun_window example_windows)) 0 (Some \<lparr>hour = 17, minute = 30\<rparr>) = Inr True
   \<and> in_window (Some (map sun_window example_windows)) 0 (Some \<lparr>hour = 5, minute = 59\<rparr>) = Inr False
   \<and> in_window (Some (map sun_window example_windows)) 0 (Some \<lparr>hour = 17, minute = 31\<rparr>) = Inr False"
proof -
  let ?sr = "\<lparr>hour = 6, minute = 0\<rparr>"
  let ?ss = "\<lparr>hour = 17, minute = 30\<rparr>"
  have h1: "distinct (map fst example_tides)"
    by code_simp
  have h2: "length example_tides \<le> length example_windows"
    by code_simp
  have h3: "\<forall>(dt, rs) \<in> set example_tides. \<forall>r \<in> set rs. fst r \<noteq> None"
    by code_simp
  note T = daylight_filter_retains [OF h1 h2 h3]
  have r: "daylight_filter (Some (map sun_window example_windows)) (Some example_tides) =
           Inr (filter (\<lambda>(dt, rs). rs \<noteq> [])
                  (map (\<lambda>((sr, ss), (dt, rs)). (dt, filter (in_daylight sr ss) rs))
                     (zip example_windows example_tides)))"
    using T by (rule conjunct1)
  have e: "filter (\<lambda>(dt, rs). rs \<noteq> [])
                  (map (\<lambda>((sr, ss), (dt, rs)). (dt, filter (in_daylight sr ss) rs))
                     (zip example_windows example_tides))
       = [(nov4, [(Some \<lparr>hour = 12, minute = 0\<rparr>, 0.8, ''ft'')]),
          (nov5, [(Some \<lparr>hour = 6, minute = 30\<rparr>, 1.0, ''ft'')])]"
    by code_simp
  have w: "0 < length example_windows \<and> example_windows ! 0 = (?sr, ?ss)"
    by code_simp
  note B = T [THEN conjunct2, rule_format, OF w]
  have le: "time_le ?sr ?ss"
    by code_simp
  have b1: "valid_time \<lparr>hour = 5, minute = 59\<rparr> \<and> valid_time ?sr
      \<and> minute_of_day \<lparr>hour = 5, minute = 59\<rparr> + 1 = minute_of_day ?sr"
    by code_simp
  have b2: "valid_time \<lparr>hour = 17, minute = 31\<rparr> \<and> valid_time ?ss
      \<and> minute_of_day \<lparr>hour = 17, minute = 31\<rparr> = minute_of_day ?ss + 1"
    by code_simp
  have c1: "in_window (Some (map sun_window example_windows)) 0 (Some ?sr) = Inr True
      \<and> in_window (Some (map sun_window example_windows)) 0 (Some ?ss) = Inr True"
    using B [THEN conjunct2, THEN conjunct1, rule_format, OF le] .
  have c2: "in_window (Some (map sun_window example_windows)) 0 (Some \<lparr>hour = 5, minute = 59\<rparr>)
      = Inr False"
    using B [THEN conjunct2, THEN conjunct2, THEN conjunct1, rule_format, OF b1] .
  have c3: "in_window (Some (map sun_window example_windows)) 0 (Some \<lparr>hour = 17, minute = 31\<rparr>)
      = Inr False"
    using B [THEN conjunct2, THEN conjunct2, THEN conjunct2, rule_format, OF b2] .
  show ?thesis
    by (simp only: r e c1 c2 c3)
qed

lemma filter_days_append:
  "filter_days ras indx (xs @ ys) acc =
     (case filter_days ras indx xs acc of
        Inl e \<Rightarrow> Inl e
      | Inr acc' \<Rightarrow> filter_days ras (indx + length xs) ys acc')"
  by (induction xs arbitrary: indx acc) (auto split: sum.splits)

lemma in_window_beyond:
  "length ws \<le> indx \<Longrightarrow> in_window (Some ws) indx t = Inl IndexError"
  by (simp add: in_window_def py_index_def)

lemma in_window_Inr_index:
  "in_window (Some ws) indx t = Inr b \<Longrightarrow> indx < length ws"
  by (auto simp: in_window_def py_index_def split: if_splits)

lemma filter_day_Inr_index:
  "filter_day (Some ws) indx dt rs acc = Inr res \<Longrightarrow> rs \<noteq> [] \<Longrightarrow> indx < length ws"
  by (cases rs) (auto split: sum.splits dest: in_window_Inr_index)

lemma filter_days_Inr_index:
  "filter_days (Some ws) indx items acc = Inr res \<Longrightarrow> i < length items
     \<Longrightarrow> snd (items ! i) \<noteq> [] \<Longrightarrow> indx + i < length ws"
proof (induction items arbitrary: indx acc i)
  case Nil
  then show ?case by simp
next
  case (Cons item items)
  obtain dt rs where item: "item = (dt, rs)" by (cases item)
  obtain acc' where day: "filter_day (Some ws) indx dt rs acc = Inr acc'"
    and rest: "filter_days (Some ws) (indx + 1) items acc' = Inr res"
    using Cons.prems(1) item by (auto split: sum.splits)
  show ?case
  proof (cases i)
    case 0
    then show ?thesis
      using Cons.prems(3) item day filter_day_Inr_index by fastforce
  next
    case (Suc j)
    then show ?thesis
      using Cons.IH [OF rest, of j] Cons.prems(2,3) by simp
  qed
qed

text \<open>
  Claim C6, as amended. The filter checks no lengths. It fails with IndexError at the
  first date that has a reading and whose position is beyond the end of the SunWindow
  sequence (the dates before it having passed the filter); whenever it returns, every
  date with a reading has a position inside the SunWindow sequence; and it fails with
  TypeError at the first reading when there is no SunWindow sequence at all.
\<close>

theorem daylight_filter_missing_window:
  fixes pre :: "(date \<times> 'f reading list) list"
  shows "(filter_days (Some ws) 0 pre [] = Inr acc \<and> length ws \<le> length pre \<longrightarrow>
            daylight_filter (Some ws) (Some (pre @ (dt, r # rs) # post)) = Inl IndexError)
         \<and> (\<forall>res. daylight_filter (Some ws) (Some tides) = Inr res \<longrightarrow>
              (\<forall>i < length tides. snd (tides ! i) \<noteq> [] \<longrightarrow> i < length ws))
         \<and> daylight_filter None (Some ((dt, r # rs) # post)) = Inl TypeError"
proof -
  have a: "daylight_filter (Some ws) (Some (pre @ (dt, r # rs) # post)) = Inl IndexError"
    if "filter_days (Some ws) 0 pre [] = Inr acc" "length ws \<le> length pre"
    using that by (cases r) (simp add: daylight_filter_def filter_days_append in_window_beyond)
  have b: "i < length ws"
    if "daylight_filter (Some ws) (Some tides) = Inr res" "i < length tides" "snd (tides ! i) \<noteq> []"
    for res i
    using that filter_days_Inr_index [of ws 0 tides "[]" res i] by (simp add: daylight_filter_def)
  have c: "daylight_filter None (Some ((dt, r # rs) # post)) = Inl TypeError"
    by (cases r) (simp add: daylight_filter_def in_window_def)
  show ?thesis
    using a b c by blast
qed

theorem daylight_filter_missing_window_witness:
  "daylight_filter (Some [sun_window (example_windows ! 0)])
     (Some [(nov4, [reading_noon]), (nov5, [reading_morning])]) = Inl IndexError"
proof -
  have h: "filter_days (Some [sun_window (example_windows ! 0)]) 0 [(nov4, [reading_noon])] []
             = Inr [(nov4, [reading_noon])]
           \<and> length [sun_window (example_windows ! 0)] \<le> length [(nov4, [reading_noon])]"
    by code_simp
  show ?thesis
    using daylight_filter_missing_window
      [where ws = "[sun_window (example_windows ! 0)]" and pre = "[(nov4, [reading_noon])]"
         and acc = "[(nov4, [reading_noon])]" and dt = nov5 and r = reading_morning
         and rs = "[]" and post = "[]", THEN conjunct1] h
    by simp
qed

text \<open>
  Claim C6 as stated fails: with two SunWindows and one date, and with no SunWindow and
  one date without readings, the lengths differ and the filter returns without an error.
\<close>

theorem daylight_filter_lengths_counterexample:
  "length (map sun_window example_windows) \<noteq> length [(nov4, [reading_noon])]
   \<and> daylight_filter (Some (map sun_window example_windows)) (Some [(nov4, [reading_noon])])
       = Inr [(nov4, [reading_noon])]
   \<and> length ([] :: time option list list) \<noteq> length [(nov4, [] :: real reading list)]
   \<and> daylight_filter (Some []) (Some [(nov4, [] :: real reading list)]) = Inr []"
  by code_simp

section \<open>Properties of the row loops\<close>

declare row_loop.simps [simp del]

lemma sun_rows_skip:
  "\<forall>r \<in> set pre. find_all r ''td'' (Some ''tide-table__part--sun'') = []
     \<Longrightarrow> sun_rows L (pre @ rest) = sun_rows L rest"
  by (induction pre) (simp_all add: Let_def)

lemma rows_loop_skip:
  "\<forall>r \<in> set pre. has_tide_info r ''low'' = Inr False
     \<Longrightarrow> rows_loop L (pre @ rest) dates tides = rows_loop L rest dates tides"
  by (induction pre) simp_all

lemma get_tides_first_row:
  assumes "find_all table ''tr'' (Some ''tide-table__separator'') = pre @ tr # post"
    and "\<forall>r \<in> set pre. has_tide_info r ''low'' = Inr False"
    and "has_tide_info tr ''low'' = Inr True"
  shows "get_tides L table dates =
           (case row_loop L (find_all tr ''td'' None) dates [] 0 0 of
              Inl e \<Rightarrow> Inl e
            | Inr tides \<Rightarrow> Inr (Some tides))"
  using assms by (simp add: get_tides_def rows_loop_skip)


lemma cols_loop_success:
  assumes "\<forall>td \<in> set tds. \<exists>data. get_data L td = Inr data"
    and "td_index + n \<le> length tds"
  shows "\<exists>tides'. cols_loop L tds dt n tides td_index = Inr (tides', td_index + n)"
  using assms(2)
proof (induction n arbitrary: tides td_index)
  case 0
  then show ?case by simp
next
  case (Suc n)
  have lt: "td_index < length tds" using Suc.prems by simp
  then obtain data where d: "get_data L (tds ! td_index) = Inr data"
    using assms(1) nth_mem by blast
  show ?case
    using Suc.IH [of "Suc td_index"] Suc.prems lt by (simp add: py_index_def d)
qed

lemma cols_loop_Suc_Inr:
  assumes "cols_loop L tds dt (Suc n) tides td_index = Inr res"
  obtains data where "td_index < length tds"
    and "get_data L (tds ! td_index) = Inr data"
    and "cols_loop L tds dt n (if data \<noteq> [] then dict_extend dt data tides else tides)
           (Suc td_index) = Inr res"
  using assms by (auto simp: py_index_def split: if_splits sum.splits)

lemma cols_loop_result:
  "cols_loop L tds dt n tides td_index = Inr (tides', i')
     \<Longrightarrow> i' = td_index + n \<and> (0 < n \<longrightarrow> td_index + n \<le> length tds)
         \<and> fst ` set tides \<subseteq> fst ` set tides'
         \<and> fst ` set tides' \<subseteq> insert dt (fst ` set tides)"
proof (induction n arbitrary: tides td_index)
  case 0
  then show ?case by auto
next
  case (Suc n)
  from Suc.prems obtain data where lt: "td_index < length tds"
    and rest: "cols_loop L tds dt n (if data \<noteq> [] then dict_extend dt data tides else tides)
           (Suc td_index) = Inr (tides', i')"
    by (rule cols_loop_Suc_Inr)
  define T where "T = (if data \<noteq> [] then dict_extend dt data tides else tides)"
  have ih: "i' = Suc td_index + n \<and> (0 < n \<longrightarrow> Suc td_index + n \<le> length tds)
         \<and> fst ` set T \<subseteq> fst ` set tides'
         \<and> fst ` set tides' \<subseteq> insert dt (fst ` set T)"
    unfolding T_def by (rule Suc.IH [OF rest])
  have k1: "fst ` set tides \<subseteq> fst ` set T"
    by (simp add: T_def dict_extend_keys subset_insertI)
  have k2: "fst ` set T \<subseteq> insert dt (fst ` set tides)"
    by (simp add: T_def dict_extend_keys subset_insertI)
  have ih1: "i' = Suc td_index + n"
    using ih by (rule conjunct1)
  have ih2: "0 < n \<longrightarrow> Suc td_index + n \<le> length tds"
    using ih by (rule conjunct2 [THEN conjunct1])
  have ih3: "fst ` set T \<subseteq> fst ` set tides'"
    using ih by (rule conjunct2 [THEN conjunct2, THEN conjunct1])
  have ih4: "fst ` set tides' \<subseteq> insert dt (fst ` set T)"
    using ih by (rule conjunct2 [THEN conjunct2, THEN conjunct2])
  have len: "td_index + Suc n \<le> length tds"
    using ih2 lt by (cases n) simp_all
  have idx: "i' = td_index + Suc n"
    using ih1 by simp
  have s1: "fst ` set tides \<subseteq> fst ` set tides'"
    using ih3 k1 by (rule order_trans [rotated])
  have s2: "fst ` set tides' \<subseteq> insert dt (fst ` set tides)"
    using ih4 k2 by blast
  show ?case
    using len idx s1 s2 by simp
qed

lemma row_loop_end:
  "length tds \<le> td_index \<Longrightarrow> row_loop L tds dates tides td_index day_no = Inr tides"
  by (subst row_loop.simps) simp

lemma row_loop_no_day:
  "td_index < length tds \<Longrightarrow> length dates \<le> day_no
     \<Longrightarrow> row_loop L tds dates tides td_index day_no = Inl IndexError"
  by (subst row_loop.simps) (simp add: py_index_def)

lemma row_loop_zero:
  "td_index < length tds \<Longrightarrow> day_no < length dates \<Longrightarrow> dates ! day_no = (dt, 0)
     \<Longrightarrow> row_loop L tds dates tides td_index day_no =
           (case get_data L (tds ! td_index) of
              Inl e \<Rightarrow> Inl e
            | Inr data \<Rightarrow>
                row_loop L tds dates (dict_setitem dt data tides) (td_index + 1) (day_no + 1))"
  by (subst row_loop.simps) (simp add: py_index_def)

lemma row_loop_cols:
  "td_index < length tds \<Longrightarrow> day_no < length dates \<Longrightarrow> dates ! day_no = (dt, cols)
     \<Longrightarrow> cols \<noteq> 0
     \<Longrightarrow> row_loop L tds dates tides td_index day_no =
           (case cols_loop L tds dt (nat cols) tides td_index of
              Inl e \<Rightarrow> Inl e
            | Inr (tides', td_index') \<Rightarrow> row_loop L tds dates tides' td_index' (day_no + 1))"
  by (subst row_loop.simps) (simp add: py_index_def)

lemma row_loop_Inr_cases:
  assumes "row_loop L tds dates tides td_index day_no = Inr res"
  obtains (finished) "length tds \<le> td_index" and "res = tides"
  | (zero) dt data where "td_index < length tds" and "day_no < length dates"
      and "dates ! day_no = (dt, 0)" and "get_data L (tds ! td_index) = Inr data"
      and "row_loop L tds dates (dict_setitem dt data tides) (Suc td_index) (Suc day_no) = Inr res"
  | (cols) dt cols tides' i' where "td_index < length tds" and "day_no < length dates"
      and "dates ! day_no = (dt, cols)" and "cols \<noteq> 0"
      and "cols_loop L tds dt (nat cols) tides td_index = Inr (tides', i')"
      and "row_loop L tds dates tides' i' (Suc day_no) = Inr res"
proof (cases "length tds \<le> td_index")
  case True
  then show ?thesis
    using assms finished by (simp add: row_loop_end)
next
  case False
  then have lt: "td_index < length tds" by simp
  have dl: "day_no < length dates"
    using assms lt row_loop_no_day [of td_index tds dates day_no L tides] by (cases "day_no < length dates") simp_all
  obtain dt c where d: "dates ! day_no = (dt, c)" by (cases "dates ! day_no")
  show ?thesis
  proof (cases "c = 0")
    case True
    then show ?thesis
      using assms lt dl d zero [of dt] by (simp add: row_loop_zero split: sum.splits)
  next
    case False
    then show ?thesis
      using assms lt dl d cols [of dt c] by (simp add: row_loop_cols split: sum.splits prod.splits)
  qed
qed



lemma cells_needed_drop:
  "day_no < length dates \<Longrightarrow>
     cells_needed (drop day_no dates) =
       day_cells (snd (dates ! day_no)) + cells_needed (drop (Suc day_no) dates)"
  by (simp add: cells_needed_def Cons_nth_drop_Suc [symmetric])



lemma row_loop_overflow:
  assumes ok: "\<forall>td \<in> set tds. \<exists>data. get_data L td = Inr data"
  shows "day_no \<le> length dates
     \<Longrightarrow> td_index + cells_needed (drop day_no dates) < length tds
     \<Longrightarrow> row_loop L tds dates tides td_index day_no = Inl IndexError"
proof (induction "length dates - day_no" arbitrary: tides td_index day_no)
  case 0
  then show ?case
    by (simp add: row_loop_no_day cells_needed_def)
next
  case (Suc n)
  have dl: "day_no < length dates" using Suc.hyps(2) by simp
  obtain dt c where d: "dates ! day_no = (dt, c)" by (cases "dates ! day_no")
  have sum: "td_index + day_cells c + cells_needed (drop (Suc day_no) dates) < length tds"
    using Suc.prems(2) cells_needed_drop [OF dl] d by simp
  then have lt: "td_index < length tds" by simp
  have ih: "row_loop L tds dates tides' (td_index + day_cells c) (Suc day_no) = Inl IndexError"
    for tides'
    using Suc.hyps(1) [of "Suc day_no" "td_index + day_cells c" tides'] Suc.hyps(2) dl sum
    by simp
  show ?case
  proof (cases "c = 0")
    case True
    obtain data where "get_data L (tds ! td_index) = Inr data"
      using ok lt nth_mem by blast
    then show ?thesis
      using lt dl d True ih [of "dict_setitem dt data tides"]
      by (simp add: row_loop_zero day_cells_def)
  next
    case False
    have "td_index + nat c \<le> length tds"
      using sum False by (simp add: day_cells_def)
    then obtain tides' where "cols_loop L tds dt (nat c) tides td_index = Inr (tides', td_index + nat c)"
      using cols_loop_success [OF ok] by blast
    then show ?thesis
      using lt dl d False ih [of tides']
      by (simp add: row_loop_cols day_cells_def)
  qed
qed



lemma row_loop_Inr_cells:
  "row_loop L tds dates tides td_index day_no = Inr res \<Longrightarrow> day_no \<le> length dates
     \<Longrightarrow> length tds \<le> td_index + cells_needed (drop day_no dates)"
proof (induction "length dates - day_no" arbitrary: tides td_index day_no)
  case 0
  from "0.prems"(1) show ?case
  proof (cases rule: row_loop_Inr_cases)
    case finished
    then show ?thesis by simp
  next
    case (zero dt data)
    then show ?thesis using "0.hyps" by simp
  next
    case (cols dt cols tides' i')
    then show ?thesis using "0.hyps" by simp
  qed
next
  case (Suc n)
  from Suc.prems(1) show ?case
  proof (cases rule: row_loop_Inr_cases)
    case finished
    then show ?thesis by simp
  next
    case (zero dt data)
    have "length tds \<le> Suc td_index + cells_needed (drop (Suc day_no) dates)"
      using Suc.hyps(1) [OF _ zero(5)] Suc.hyps(2) zero(2) by simp
    then show ?thesis
      using cells_needed_drop [OF zero(2)] zero(3) by (simp add: day_cells_def)
  next
    case (cols dt c tides' i')
    have "i' = td_index + nat c"
      using cols_loop_result [OF cols(5)] by simp
    moreover have "length tds \<le> i' + cells_needed (drop (Suc day_no) dates)"
      using Suc.hyps(1) [OF _ cols(6)] Suc.hyps(2) cols(2) by simp
    ultimately show ?thesis
      using cells_needed_drop [OF cols(2)] cols(3,4) by (simp add: day_cells_def)
  qed
qed

section \<open>Properties of the extractors\<close>

text \<open>
  Claim C4, as amended. \<open>get_rise_and_set\<close> returns what the first row with sun cells
  gives (the rows before it have none, the rows after it are not looked at), or the
  exception that row raises. For a table in which no row has a sun cell it returns
  \<^verbatim>\<open>None\<close>, which is not an empty sequence (subscripting it raises TypeError).
\<close>

theorem get_rise_and_set_first_row:
  "(find_all table ''tr'' None = pre @ tr # post
      \<and> (\<forall>r \<in> set pre. find_all r ''td'' (Some ''tide-table__part--sun'') = [])
      \<and> find_all tr ''td'' (Some ''tide-table__part--sun'') \<noteq> []
    \<longrightarrow> get_rise_and_set L table =
          (case sun_row L (find_all tr ''td'' (Some ''tide-table__part--sun'')) of
             Inl e \<Rightarrow> Inl e
           | Inr sun_times \<Rightarrow> Inr (Some sun_times)))
   \<and> ((\<forall>r \<in> set (find_all table ''tr'' None).
          find_all r ''td'' (Some ''tide-table__part--sun'') = [])
    \<longrightarrow> get_rise_and_set L table = Inr None)"
proof -
  have none: "sun_rows L rows = Inr None"
    if "\<forall>r \<in> set rows. find_all r ''td'' (Some ''tide-table__part--sun'') = []" for rows
    using sun_rows_skip [OF that, of L "[]"] by simp
  show ?thesis
    using none by (auto simp: get_rise_and_set_def sun_rows_skip Let_def)
qed

theorem get_rise_and_set_first_row_witness:
  "get_rise_and_set example_lib example_table =
     Inr (Some [[Some \<lparr>hour = 6, minute = 0\<rparr>, Some \<lparr>hour = 17, minute = 30\<rparr>],
                [Some \<lparr>hour = 6, minute = 1\<rparr>, Some \<lparr>hour = 17, minute = 29\<rparr>]])
   \<and> get_rise_and_set example_lib (Tag ''table'' None [] [header_row]) = Inr None"
proof -
  have h: "find_all example_table ''tr'' None = [header_row] @ sun_cells_row # [high_row, low_row]
      \<and> (\<forall>r \<in> set [header_row]. find_all r ''td'' (Some ''tide-table__part--sun'') = [])
      \<and> find_all sun_cells_row ''td'' (Some ''tide-table__part--sun'') \<noteq> []"
    by code_simp
  have r: "get_rise_and_set example_lib example_table =
          (case sun_row example_lib (find_all sun_cells_row ''td'' (Some ''tide-table__part--sun'')) of
             Inl e \<Rightarrow> Inl e
           | Inr sun_times \<Rightarrow> Inr (Some sun_times))"
    using get_rise_and_set_first_row [THEN conjunct1, THEN mp, OF h] .
  have e: "(case sun_row example_lib (find_all sun_cells_row ''td'' (Some ''tide-table__part--sun'')) of
             Inl e \<Rightarrow> Inl e
           | Inr sun_times \<Rightarrow> Inr (Some sun_times))
       = Inr (Some [[Some \<lparr>hour = 6, minute = 0\<rparr>, Some \<lparr>hour = 17, minute = 30\<rparr>],
                [Some \<lparr>hour = 6, minute = 1\<rparr>, Some \<lparr>hour = 17, minute = 29\<rparr>]])"
    by code_simp
  have n: "\<forall>r \<in> set (find_all (Tag ''table'' None [] [header_row]) ''tr'' None).
          find_all r ''td'' (Some ''tide-table__part--sun'') = []"
    by code_simp
  have r2: "get_rise_and_set example_lib (Tag ''table'' None [] [header_row]) = Inr None"
    using get_rise_and_set_first_row [THEN conjunct2, THEN mp, OF n] .
  show ?thesis
    by (simp only: r e r2)
qed

text \<open>
  Claim C4 as stated fails on the example page without its row of sun cells: the value is
  \<^verbatim>\<open>None\<close>, not the empty list.
\<close>

theorem get_rise_and_set_none_counterexample:
  "get_rise_and_set example_lib no_sun_table = Inr None
   \<and> get_rise_and_set example_lib no_sun_table \<noteq> Inr (Some [])"
  by code_simp




text \<open>
  Claim C2, as amended. When the first separator row with a low-tide cell has more cells
  than the DayColumn sequence accounts for, \<open>get_tides\<close> returns no mapping: it raises
  an exception, and when every cell of the row gives its readings (no height fails to be a
  number) the exception is the IndexError of the lookup of the day after the last one.
\<close>

theorem get_tides_too_many_cells:
  assumes "find_all table ''tr'' (Some ''tide-table__separator'') = pre @ tr # post"
    and "\<forall>r \<in> set pre. has_tide_info r ''low'' = Inr False"
    and "has_tide_info tr ''low'' = Inr True"
    and "cells_needed dates < length (find_all tr ''td'' None)"
  shows "(\<exists>e. get_tides L table dates = Inl e)
         \<and> (map (get_data L) (find_all tr ''td'' None) = map Inr datas
              \<longrightarrow> get_tides L table dates = Inl IndexError)"
proof -
  let ?tds = "find_all tr ''td'' None"
  have first: "get_tides L table dates =
           (case row_loop L ?tds dates [] 0 0 of
              Inl e \<Rightarrow> Inl e
            | Inr tides \<Rightarrow> Inr (Some tides))"
    using assms(1,2,3) by (rule get_tides_first_row)
  have "\<exists>e. row_loop L ?tds dates [] 0 0 = Inl e"
  proof (cases "row_loop L ?tds dates [] 0 0")
    case (Inl e)
    then show ?thesis by simp
  next
    case (Inr res)
    then have "length ?tds \<le> 0 + cells_needed (drop 0 dates)"
      by (rule row_loop_Inr_cells) simp
    then show ?thesis
      using assms(4) by simp
  qed
  then have raises: "\<exists>e. get_tides L table dates = Inl e"
    using first by auto
  have index: "get_tides L table dates = Inl IndexError"
    if d: "map (get_data L) ?tds = map Inr datas"
  proof -
    have ok: "\<forall>td \<in> set ?tds. \<exists>data. get_data L td = Inr data"
    proof
      fix td
      assume "td \<in> set ?tds"
      then have "get_data L td \<in> set (map Inr datas)"
        using d by (metis image_eqI set_map)
      then show "\<exists>data. get_data L td = Inr data" by auto
    qed
    have "row_loop L ?tds dates [] 0 0 = Inl IndexError"
      using row_loop_overflow [OF ok, of 0 dates 0 "[]"] assms(4) by simp
    then show ?thesis
      using first by simp
  qed
  show ?thesis
    using raises index by blast
qed

theorem get_tides_too_many_cells_witness:
  "get_tides example_lib example_table [(nov4, 0), (nov5, 1)] = Inl IndexError"
proof -
  have a: "find_all example_table ''tr'' (Some ''tide-table__separator'') = [high_row] @ low_row # []"
    by code_simp
  have b: "\<forall>r \<in> set [high_row]. has_tide_info r ''low'' = Inr False"
    by code_simp
  have c: "has_tide_info low_row ''low'' = Inr True"
    by code_simp
  have d: "map (get_data example_lib) (find_all low_row ''td'' None) =
      map Inr [[(Some \<lparr>hour = 5, minute = 45\<rparr>, 1.2, ''ft''),
                (Some \<lparr>hour = 12, minute = 0\<rparr>, 0.8, ''ft'')],
               [(Some \<lparr>hour = 6, minute = 30\<rparr>, 1.0, ''ft'')],
               [(Some \<lparr>hour = 18, minute = 0\<rparr>, 0.9, ''ft'')]]"
    by code_simp
  have e: "cells_needed [(nov4, 0), (nov5, 1)] < length (find_all low_row ''td'' None)"
    by code_simp
  show ?thesis
    using get_tides_too_many_cells [OF a b c e, THEN conjunct2, THEN mp, OF d] .
qed

text \<open>
  Claim C2 as stated fails on the example page with a DayColumn sequence of one day of
  column count 0: the low-tide row has three cells, and the call raises IndexError.
\<close>

theorem get_tides_too_many_cells_counterexample:
  "has_tide_info low_row ''low'' = Inr True
   \<and> cells_needed [(nov4, 0)] < length (find_all low_row ''td'' None)
   \<and> get_tides example_lib example_table [(nov4, 0)] = Inl IndexError"
  by code_simp




section \<open>The scenario of the specification\<close>

text \<open>
  The example page is the end-to-end scenario of the specification: of the readings
  05:45 and 12:00 of the first day and 06:30 and 18:00 of the second, the filter keeps
  12:00 and 06:30.
\<close>

lemma extract_tides_example:
  "extract_tides example_lib example_table =
     Inr [(nov4, [(Some \<lparr>hour = 12, minute = 0\<rparr>, 0.8, ''ft'')]),
          (nov5, [(Some \<lparr>hour = 6, minute = 30\<rparr>, 1.0, ''ft'')])]"
  by code_simp

end
